theory Spec2Isabelle
  imports Main
begin

section \<open>The user service of \<^verbatim>\<open>service/user.go\<close>\<close>

text \<open>
  The service keeps two Go maps, \<^verbatim>\<open>users\<close> and \<^verbatim>\<open>sessions\<close>. Go maps are reference
  values, so the writes of the value-receiver methods (\<^verbatim>\<open>Login\<close>, \<^verbatim>\<open>Logout\<close>) reach
  the service's own maps just as those of the pointer-receiver method \<^verbatim>\<open>Register\<close> do.
  Every operation is therefore modelled as a function from the service state to the
  new state and the returned values. A Go \<^verbatim>\<open>string\<close> is a sequence of bytes: \<open>string\<close>.
\<close>

subsection \<open>Data\<close>

definition MainTemplate :: string where
  "MainTemplate = ''main.gohtml''"

record UserFields =
  Username :: string
  HashedPassword :: string

record userService =
  users :: "string \<rightharpoonup> UserFields"
  sessions :: "string \<rightharpoonup> string"

text \<open>
  The errors the service builds with \<^verbatim>\<open>fmt.Errorf\<close>, one constructor for each message;
  a constructor with an argument wraps (\<^verbatim>\<open>%w\<close>) the error of a collaborator, which is
  kept as its message.
\<close>

datatype error =
    UserAlreadyRegistered             \<comment> \<open>"user already registered"\<close>
  | ErrorWhileHashingPass string      \<comment> \<open>"error while hashing pass: %w"\<close>
  | UserNotRegistered                 \<comment> \<open>"user not registered"\<close>
  | ErrorWhileCheckingPasswords string \<comment> \<open>"error while checking passwords: %w"\<close>
  | ErrorWhileCreatingToken string    \<comment> \<open>"error while creating token: %w"\<close>
  | ErrorWhileParsingToken string     \<comment> \<open>"error while parsing token: %w"\<close>
  | SessionNotRegistered              \<comment> \<open>"session not registered"\<close>
  | SessionNotRegisteredDuringLogout  \<comment> \<open>"session not registered during logout"\<close>

record TemplateMetadata =
  Name :: string

record TemplateVariables =
  VName :: string
  LoginMessage :: string
  ErrorMessage :: "error option"
  Session :: string
  User :: string

record TemplateRender =
  Metadata :: TemplateMetadata
  Variables :: TemplateVariables

text \<open>
  \<^verbatim>\<open>TemplateVariables{}\<close>: every field at its zero value (the field \<^verbatim>\<open>Name\<close> of
  \<^verbatim>\<open>TemplateVariables\<close> is \<open>VName\<close> here, \<open>Name\<close> being the field of \<^verbatim>\<open>TemplateMetadata\<close>).
\<close>

definition zeroTemplateVariables :: TemplateVariables where
  "zeroTemplateVariables =
     \<lparr>VName = [], LoginMessage = [], ErrorMessage = None, Session = [], User = []\<rparr>"

subsection \<open>Collaborators\<close>

text \<open>
  The functions the service calls and this file does not define: the token codec
  \<^verbatim>\<open>ParseToken\<close> and \<^verbatim>\<open>CreateToken\<close> of the same package, and the two bcrypt functions.
  They are parameters of the model. A result \<^verbatim>\<open>(string, error)\<close> is \<open>Inl\<close> of the error's
  message or \<open>Inr\<close> of the string; a result \<^verbatim>\<open>error\<close> is \<open>None\<close> for \<^verbatim>\<open>nil\<close>.
  \<^verbatim>\<open>bcrypt.GenerateFromPassword\<close> draws a random salt: the bytes it draws are its first
  argument here, so two calls on one password may differ.
\<close>

record externals =
  ParseToken :: "string \<Rightarrow> string + string"
  CreateToken :: "string \<Rightarrow> string + string"
  GenerateFromPassword :: "string \<Rightarrow> string \<Rightarrow> nat \<Rightarrow> string + string"
  CompareHashAndPassword :: "string \<Rightarrow> string \<Rightarrow> string option"

definition DefaultCost :: nat where
  "DefaultCost = 10"

subsection \<open>\<^verbatim>\<open>strings.TrimSpace\<close>\<close>

text \<open>
  \<^verbatim>\<open>strings.TrimSpace\<close> removes the leading and the trailing white space of a string, white
  space being the runes of \<^verbatim>\<open>unicode.IsSpace\<close>. The string is UTF-8; only the shortest
  encoding of a rune decodes to it, so a white-space rune is one of the byte sequences
  below: tab, line feed, vertical tab, form feed, carriage return, space, U+0085, U+00A0,
  U+1680, U+2000 to U+200A, U+2028, U+2029, U+202F, U+205F and U+3000.
\<close>

definition spaceRunes :: "string list" where
  "spaceRunes =
     [ [CHR 0x09], [CHR 0x0A], [CHR 0x0B], [CHR 0x0C], [CHR 0x0D], [CHR 0x20],
      [CHR 0xC2, CHR 0x85], [CHR 0xC2, CHR 0xA0],
      [CHR 0xE1, CHR 0x9A, CHR 0x80],
      [CHR 0xE2, CHR 0x80, CHR 0x80], [CHR 0xE2, CHR 0x80, CHR 0x81],
      [CHR 0xE2, CHR 0x80, CHR 0x82], [CHR 0xE2, CHR 0x80, CHR 0x83],
      [CHR 0xE2, CHR 0x80, CHR 0x84], [CHR 0xE2, CHR 0x80, CHR 0x85],
      [CHR 0xE2, CHR 0x80, CHR 0x86], [CHR 0xE2, CHR 0x80, CHR 0x87],
      [CHR 0xE2, CHR 0x80, CHR 0x88], [CHR 0xE2, CHR 0x80, CHR 0x89],
      [CHR 0xE2, CHR 0x80, CHR 0x8A],
      [CHR 0xE2, CHR 0x80, CHR 0xA8], [CHR 0xE2, CHR 0x80, CHR 0xA9],
      [CHR 0xE2, CHR 0x80, CHR 0xAF], [CHR 0xE2, CHR 0x81, CHR 0x9F],
      [CHR 0xE3, CHR 0x80, CHR 0x80] ]"

definition leadingSpace :: "string \<Rightarrow> string option" where
  "leadingSpace s = find (\<lambda>e. take (length e) s = e) spaceRunes"

definition trailingSpace :: "string \<Rightarrow> string option" where
  "trailingSpace s = find (\<lambda>e. drop (length s - length e) s = e) spaceRunes"

function TrimLeftSpace :: "string \<Rightarrow> string" where
  "TrimLeftSpace s =
     (case leadingSpace s of
        None \<Rightarrow> s
      | Some e \<Rightarrow> TrimLeftSpace (drop (length e) s))"
  by pat_completeness auto
termination
proof (relation "measure length")
  show "wf (measure length)" by simp
next
  fix s e
  assume "leadingSpace s = Some e"
  then have mem: "e \<in> set spaceRunes" and eq: "take (length e) s = e"
    by (auto simp: leadingSpace_def find_Some_iff)
  from mem have pos: "0 < length e" by (auto simp: spaceRunes_def)
  from eq have "length (take (length e) s) = length e" by simp
  then have le: "length e \<le> length s" by simp
  have "length (drop (length e) s) = length s - length e" by simp
  with pos le have "length (drop (length e) s) < length s" by arith
  then show "(drop (length e) s, s) \<in> measure length" by simp
qed

function TrimRightSpace :: "string \<Rightarrow> string" where
  "TrimRightSpace s =
     (case trailingSpace s of
        None \<Rightarrow> s
      | Some e \<Rightarrow> TrimRightSpace (take (length s - length e) s))"
  by pat_completeness auto
termination
proof (relation "measure length")
  show "wf (measure length)" by simp
next
  fix s e
  assume "trailingSpace s = Some e"
  then have mem: "e \<in> set spaceRunes" and eq: "drop (length s - length e) s = e"
    by (auto simp: trailingSpace_def find_Some_iff)
  from mem have pos: "0 < length e" by (auto simp: spaceRunes_def)
  from eq have "length (drop (length s - length e) s) = length e" by simp
  then have "length s - (length s - length e) = length e" by (simp only: length_drop)
  with pos have le: "length e \<le> length s" by arith
  have "length (take (length s - length e) s) = length s - length e" by simp
  with pos le have "length (take (length s - length e) s) < length s" by arith
  then show "(take (length s - length e) s, s) \<in> measure length" by simp
qed

declare TrimLeftSpace.simps [simp del] TrimRightSpace.simps [simp del]

definition TrimSpace :: "string \<Rightarrow> string" where
  "TrimSpace s = TrimRightSpace (TrimLeftSpace s)"

subsection \<open>The operations\<close>

definition NewUserService :: userService where
  "NewUserService = \<lparr>users = Map.empty, sessions = Map.empty\<rparr>"

definition HealthCheck :: "userService \<Rightarrow> string" where
  "HealthCheck u = ''ok''"

definition hashValue :: "externals \<Rightarrow> string \<Rightarrow> string \<Rightarrow> string + string" where
  "hashValue x salt v =
     (case GenerateFromPassword x salt v DefaultCost of
        Inl err \<Rightarrow> Inl err
      | Inr hash \<Rightarrow> Inr hash)"

definition checkPasswordHash :: "externals \<Rightarrow> string \<Rightarrow> string \<Rightarrow> string option" where
  "checkPasswordHash x pass hash = CompareHashAndPassword x hash pass"

text \<open>
  \<^verbatim>\<open>SendMainTemplateData\<close> reads the service and writes nothing: its result is the pair
  that the Go method returns.
\<close>

definition SendMainTemplateData ::
  "externals \<Rightarrow> userService \<Rightarrow> string \<Rightarrow> TemplateRender \<times> error option" where
  "SendMainTemplateData x u token =
     (if TrimSpace token = [] then
        (\<lparr>Metadata = \<lparr>Name = MainTemplate\<rparr>, Variables = zeroTemplateVariables\<rparr>, None)
      else
        (case ParseToken x token of
           Inl err \<Rightarrow>
             (\<lparr>Metadata = \<lparr>Name = MainTemplate\<rparr>, Variables = zeroTemplateVariables\<rparr>,
              Some (ErrorWhileParsingToken err))
         | Inr sessionID \<Rightarrow>
             (case sessions u sessionID of
                None \<Rightarrow>
                  (\<lparr>Metadata = \<lparr>Name = MainTemplate\<rparr>, Variables = zeroTemplateVariables\<rparr>,
                   Some SessionNotRegistered)
              | Some user \<Rightarrow>
                  (\<lparr>Metadata = \<lparr>Name = MainTemplate\<rparr>,
                    Variables = zeroTemplateVariables\<lparr>Session := token, User := user\<rparr>\<rparr>,
                   None))))"

text \<open>
  \<^verbatim>\<open>Register\<close>: \<open>salt\<close> is what the hasher draws in this call. On an error the Go method
  returns the empty string beside it, so the result is a sum.
\<close>

definition Register ::
  "externals \<Rightarrow> string \<Rightarrow> userService \<Rightarrow> string \<Rightarrow> string \<Rightarrow> userService \<times> (error + string)" where
  "Register x salt u user pass =
     (if users u user \<noteq> None then (u, Inl UserAlreadyRegistered)
      else
        (case hashValue x salt pass of
           Inl err \<Rightarrow> (u, Inl (ErrorWhileHashingPass err))
         | Inr hashedPass \<Rightarrow>
             (u\<lparr>users := (users u)(user \<mapsto> \<lparr>Username = user, HashedPassword = hashedPass\<rparr>)\<rparr>,
              Inr ''REGISTER SUCCESSFUL'')))"

text \<open>
  \<^verbatim>\<open>Login\<close>: \<open>sessionID\<close> is the string of the identifier that \<^verbatim>\<open>uuid.New()\<close> draws in
  this call (a panic of \<^verbatim>\<open>uuid.New\<close>, when the random source fails, is left out). The
  session is stored before the token is created.
\<close>

definition Login ::
  "externals \<Rightarrow> string \<Rightarrow> userService \<Rightarrow> string \<Rightarrow> string \<Rightarrow> userService \<times> (error + string)" where
  "Login x sessionID u user pass =
     (case users u user of
        None \<Rightarrow> (u, Inl UserNotRegistered)
      | Some userFields \<Rightarrow>
          (case checkPasswordHash x pass (HashedPassword userFields) of
             Some err \<Rightarrow> (u, Inl (ErrorWhileCheckingPasswords err))
           | None \<Rightarrow>
               (let u' = u\<lparr>sessions := (sessions u)(sessionID \<mapsto> user)\<rparr> in
                case CreateToken x sessionID of
                  Inl err \<Rightarrow> (u', Inl (ErrorWhileCreatingToken err))
                | Inr token \<Rightarrow> (u', Inr token))))"

definition Logout :: "externals \<Rightarrow> userService \<Rightarrow> string \<Rightarrow> userService \<times> error option" where
  "Logout x u token =
     (case ParseToken x token of
        Inl err \<Rightarrow> (u, Some (ErrorWhileParsingToken err))
      | Inr sessionID \<Rightarrow>
          (if sessions u sessionID = None then (u, Some SessionNotRegisteredDuringLogout)
           else (u\<lparr>sessions := (sessions u)(sessionID := None)\<rparr>, None)))"

subsection \<open>Any sequence of calls\<close>

text \<open>
  What a client of the \<^verbatim>\<open>UserService\<close> interface can do is a sequence of calls of its
  five methods. \<open>perform\<close> gives the state after one call: \<^verbatim>\<open>HealthCheck\<close> and
  \<^verbatim>\<open>SendMainTemplateData\<close> write to neither map, the other three leave the state that
  their models return.
\<close>

datatype call =
    CallHealthCheck
  | CallSendMainTemplateData string
  | CallRegister string string string
  | CallLogin string string string
  | CallLogout string

fun perform :: "externals \<Rightarrow> userService \<Rightarrow> call \<Rightarrow> userService" where
  "perform x u CallHealthCheck = u"
| "perform x u (CallSendMainTemplateData token) = u"
| "perform x u (CallRegister salt user pass) = fst (Register x salt u user pass)"
| "perform x u (CallLogin sessionID user pass) = fst (Login x sessionID u user pass)"
| "perform x u (CallLogout token) = fst (Logout x u token)"

subsection \<open>The order that the specification words for \<^verbatim>\<open>Register\<close>\<close>

text \<open>
  The specification words \<^verbatim>\<open>Register\<close> as: hash the password, then call the user
  store's \<^verbatim>\<open>Create\<close>, which fails if the key exists and inserts otherwise. This is that
  order, to be compared with \<open>Register\<close>.
\<close>

definition Register_hash_then_create ::
  "externals \<Rightarrow> string \<Rightarrow> userService \<Rightarrow> string \<Rightarrow> string \<Rightarrow> userService \<times> (error + string)" where
  "Register_hash_then_create x salt u user pass =
     (case hashValue x salt pass of
        Inl err \<Rightarrow> (u, Inl (ErrorWhileHashingPass err))
      | Inr hashedPass \<Rightarrow>
          (if users u user \<noteq> None then (u, Inl UserAlreadyRegistered)
           else
             (u\<lparr>users := (users u)(user \<mapsto> \<lparr>Username = user, HashedPassword = hashedPass\<rparr>)\<rparr>,
              Inr ''REGISTER SUCCESSFUL'')))"

subsection \<open>Concrete collaborators and states\<close>

text \<open>
  A token codec and a hasher to run the operations on: the token of a session is the
  session identifier behind \<open>tok:\<close>, the hash of a password is the salt, a dollar sign and
  the password, and, as bcrypt does, the hasher refuses a password of more than 72 bytes.
\<close>

definition stubExternals :: externals where
  "stubExternals =
     \<lparr>ParseToken = (\<lambda>token.
          if take 4 token = ''tok:'' then Inr (drop 4 token) else Inl ''invalid token''),
      CreateToken = (\<lambda>sessionID. Inr (''tok:'' @ sessionID)),
      GenerateFromPassword = (\<lambda>salt password cost.
          if 72 < length password then Inl ''password length exceeds 72 bytes''
          else Inr (salt @ ''$'' @ password)),
      CompareHashAndPassword = (\<lambda>hash password.
          if drop (length hash - length (''$'' @ password)) hash = ''$'' @ password then None
          else Some ''hashedPassword is not the hash of the given password'')\<rparr>"

text \<open>The same collaborators with a \<^verbatim>\<open>CreateToken\<close> that fails.\<close>

definition failingTokenExternals :: externals where
  "failingTokenExternals =
     stubExternals\<lparr>CreateToken := (\<lambda>sessionID. Inl ''token signing failed'')\<rparr>"

text \<open>The service after alice has registered, and after she has logged in once.\<close>

definition aliceRegistered :: userService where
  "aliceRegistered =
     \<lparr>users = [''alice'' \<mapsto> \<lparr>Username = ''alice'', HashedPassword = ''salt$s3cret''\<rparr>],
      sessions = Map.empty\<rparr>"

definition aliceLoggedIn :: userService where
  "aliceLoggedIn =
     \<lparr>users = [''alice'' \<mapsto> \<lparr>Username = ''alice'', HashedPassword = ''salt$s3cret''\<rparr>],
      sessions = [''sid-1'' \<mapsto> ''alice'']\<rparr>"

definition longPassword :: string where
  "longPassword = replicate 73 (CHR ''a'')"

section \<open>Properties\<close>

subsection \<open>White space\<close>

text \<open>
  A string made of white-space runes only is trimmed to the empty string: these are the
  tokens that \<^verbatim>\<open>SendMainTemplateData\<close> treats as no token.
\<close>

lemma leadingSpace_append: "e \<in> set spaceRunes \<Longrightarrow> leadingSpace (e @ r) = Some e"
  unfolding spaceRunes_def leadingSpace_def
  apply (simp only: list.set insert_iff empty_iff)
  apply (elim disjE)
  apply simp_all
  done

lemma TrimLeftSpace_concat: "set ws \<subseteq> set spaceRunes \<Longrightarrow> TrimLeftSpace (concat ws) = []"
proof (induction ws)
  case Nil
  show ?case by (simp add: TrimLeftSpace.simps leadingSpace_def spaceRunes_def)
next
  case (Cons e ws)
  then have "leadingSpace (e @ concat ws) = Some e" by (simp add: leadingSpace_append)
  with Cons show ?case by (simp add: TrimLeftSpace.simps[of "e @ concat ws"])
qed

lemma TrimRightSpace_Nil: "TrimRightSpace [] = []"
  by (simp add: TrimRightSpace.simps trailingSpace_def spaceRunes_def)

lemma TrimSpace_whitespace_only: "set ws \<subseteq> set spaceRunes \<Longrightarrow> TrimSpace (concat ws) = []"
  by (simp add: TrimSpace_def TrimLeftSpace_concat TrimRightSpace_Nil)

subsection \<open>Login and the sessions map\<close>

text \<open>
  An error of \<^verbatim>\<open>Login\<close> other than a token-creation failure leaves the service as it
  was; on a token-creation failure the session of this call is in the map.
\<close>

lemma Login_error_without_token_failure:
  assumes "Login x sessionID u user pass = (u', Inl e)"
    and "\<And>m. e \<noteq> ErrorWhileCreatingToken m"
  shows "u' = u"
  using assms
  by (auto simp: Login_def Let_def split: option.splits sum.splits)

lemma Login_token_failure_sessions:
  assumes "Login x sessionID u user pass = (u', Inl (ErrorWhileCreatingToken m))"
  shows "sessions u' = (sessions u)(sessionID \<mapsto> user)"
  using assms
  by (auto simp: Login_def Let_def split: option.splits sum.splits)

text \<open>
  Claim C1: if \<^verbatim>\<open>Login\<close> returns an error (user not found, password mismatch or
  token-creation failure), the sessions map is unchanged. The code stores the session
  before it calls \<^verbatim>\<open>CreateToken\<close> and returns the error of \<^verbatim>\<open>CreateToken\<close> without
  removing it: with alice registered, her password right and a \<^verbatim>\<open>CreateToken\<close> that
  fails, \<^verbatim>\<open>Login\<close> returns the error and the sessions map, empty before, holds the new
  session.
\<close>

theorem Login_token_failure_keeps_session:
  "users aliceRegistered ''alice'' = Some \<lparr>Username = ''alice'', HashedPassword = ''salt$s3cret''\<rparr>
   \<and> CompareHashAndPassword failingTokenExternals ''salt$s3cret'' ''s3cret'' = None
   \<and> CreateToken failingTokenExternals ''sid-1'' = Inl ''token signing failed''
   \<and> snd (Login failingTokenExternals ''sid-1'' aliceRegistered ''alice'' ''s3cret'')
       = Inl (ErrorWhileCreatingToken ''token signing failed'')
   \<and> sessions aliceRegistered ''sid-1'' = None
   \<and> sessions (fst (Login failingTokenExternals ''sid-1'' aliceRegistered ''alice'' ''s3cret''))
        ''sid-1'' = Some ''alice''
   \<and> sessions (fst (Login failingTokenExternals ''sid-1'' aliceRegistered ''alice'' ''s3cret''))
       \<noteq> sessions aliceRegistered"
proof -
  have registered: "users aliceRegistered ''alice''
      = Some \<lparr>Username = ''alice'', HashedPassword = ''salt$s3cret''\<rparr>"
    by (simp add: aliceRegistered_def)
  have verified: "CompareHashAndPassword failingTokenExternals ''salt$s3cret'' ''s3cret'' = None"
    by (simp add: failingTokenExternals_def stubExternals_def)
  have failing: "CreateToken failingTokenExternals ''sid-1'' = Inl ''token signing failed''"
    by (simp add: failingTokenExternals_def)
  have before: "sessions aliceRegistered ''sid-1'' = None"
    by (simp add: aliceRegistered_def)
  have result: "Login failingTokenExternals ''sid-1'' aliceRegistered ''alice'' ''s3cret''
      = (aliceRegistered\<lparr>sessions := (sessions aliceRegistered)(''sid-1'' \<mapsto> ''alice'')\<rparr>,
         Inl (ErrorWhileCreatingToken ''token signing failed''))"
    using registered verified failing by (simp add: Login_def checkPasswordHash_def)
  have after: "sessions (fst (Login failingTokenExternals ''sid-1'' aliceRegistered ''alice''
      ''s3cret'')) ''sid-1'' = Some ''alice''"
    by (simp add: result)
  from before after have changed:
    "sessions (fst (Login failingTokenExternals ''sid-1'' aliceRegistered ''alice'' ''s3cret''))
       \<noteq> sessions aliceRegistered"
    by auto
  from registered verified failing before after changed result show ?thesis by simp
qed

text \<open>
  Claim C7: for a registered user and a password that does not verify against the stored
  hash, \<^verbatim>\<open>Login\<close> fails with the password-check error ("error while checking
  passwords", the specification's PasswordMismatch), returns no token, and leaves the
  service, so the contents and the size of the sessions map, unchanged.
\<close>

theorem Login_wrong_password:
  assumes "users u user = Some userFields"
    and "CompareHashAndPassword x (HashedPassword userFields) pass = Some err"
  shows "Login x sessionID u user pass = (u, Inl (ErrorWhileCheckingPasswords err))
       \<and> sessions (fst (Login x sessionID u user pass)) = sessions u
       \<and> card (dom (sessions (fst (Login x sessionID u user pass)))) = card (dom (sessions u))"
  using assms by (simp add: Login_def checkPasswordHash_def)

theorem Login_wrong_password_witness:
  "users aliceLoggedIn ''alice'' = Some \<lparr>Username = ''alice'', HashedPassword = ''salt$s3cret''\<rparr>
   \<and> CompareHashAndPassword stubExternals ''salt$s3cret'' ''secret''
       = Some ''hashedPassword is not the hash of the given password''
   \<and> Login stubExternals ''sid-2'' aliceLoggedIn ''alice'' ''secret''
       = (aliceLoggedIn, Inl (ErrorWhileCheckingPasswords
            ''hashedPassword is not the hash of the given password''))
   \<and> card (dom (sessions (fst (Login stubExternals ''sid-2'' aliceLoggedIn ''alice'' ''secret''))))
       = card (dom (sessions aliceLoggedIn))"
proof -
  have registered: "users aliceLoggedIn ''alice''
      = Some \<lparr>Username = ''alice'', HashedPassword = ''salt$s3cret''\<rparr>"
    by (simp add: aliceLoggedIn_def)
  have mismatch: "CompareHashAndPassword stubExternals
      (HashedPassword \<lparr>Username = ''alice'', HashedPassword = ''salt$s3cret''\<rparr>) ''secret''
      = Some ''hashedPassword is not the hash of the given password''"
    by (simp add: stubExternals_def)
  from registered mismatch Login_wrong_password [OF registered mismatch, of "''sid-2''"]
  show ?thesis by simp
qed

subsection \<open>Register\<close>

text \<open>
  Claim C4: after \<^verbatim>\<open>Register(u, p1)\<close> has succeeded, \<^verbatim>\<open>Register(u, p2)\<close> fails with "user
  already registered" (the specification's AlreadyRegistered), and the record stored for
  \<open>u\<close> by the first call, with the hash of \<open>p1\<close>, is the record stored after the second.
\<close>

theorem Register_twice:
  assumes "Register x salt1 u user p1 = (u1, Inr msg)"
  shows "\<exists>h. hashValue x salt1 p1 = Inr h
           \<and> users u1 user = Some \<lparr>Username = user, HashedPassword = h\<rparr>
           \<and> Register x salt2 u1 user p2 = (u1, Inl UserAlreadyRegistered)
           \<and> users (fst (Register x salt2 u1 user p2)) user
               = Some \<lparr>Username = user, HashedPassword = h\<rparr>"
  using assms by (auto simp: Register_def split: if_splits sum.splits)

theorem Register_twice_witness:
  "Register stubExternals ''salt'' NewUserService ''alice'' ''s3cret''
     = (aliceRegistered, Inr ''REGISTER SUCCESSFUL'')
   \<and> Register stubExternals ''pepper'' aliceRegistered ''alice'' ''other''
     = (aliceRegistered, Inl UserAlreadyRegistered)
   \<and> users aliceRegistered ''alice''
     = Some \<lparr>Username = ''alice'', HashedPassword = ''salt$s3cret''\<rparr>"
proof -
  have first: "Register stubExternals ''salt'' NewUserService ''alice'' ''s3cret''
      = (aliceRegistered, Inr ''REGISTER SUCCESSFUL'')"
    by (simp add: Register_def hashValue_def stubExternals_def NewUserService_def
        aliceRegistered_def)
  have stored: "users aliceRegistered ''alice''
      = Some \<lparr>Username = ''alice'', HashedPassword = ''salt$s3cret''\<rparr>"
    by (simp add: aliceRegistered_def)
  from Register_twice [OF first, of "''pepper''" "''other''"] first stored
  show ?thesis by blast
qed

text \<open>
  Claim C5, as stated: \<^verbatim>\<open>Register\<close> hashes the password first and then performs the
  store's create, so that for a registered username and a password that the hasher
  refuses, the failure reported is the hasher's. The code checks the username first:
  with alice registered and a password of 73 bytes, it reports "user already registered"
  where the worded order reports the hashing failure.
\<close>

theorem Register_order_counterexample:
  "users aliceRegistered ''alice'' \<noteq> None
   \<and> hashValue stubExternals ''salt'' longPassword = Inl ''password length exceeds 72 bytes''
   \<and> Register_hash_then_create stubExternals ''salt'' aliceRegistered ''alice'' longPassword
       = (aliceRegistered, Inl (ErrorWhileHashingPass ''password length exceeds 72 bytes''))
   \<and> Register stubExternals ''salt'' aliceRegistered ''alice'' longPassword
       = (aliceRegistered, Inl UserAlreadyRegistered)
   \<and> Register stubExternals ''salt'' aliceRegistered ''alice'' longPassword
       \<noteq> Register_hash_then_create stubExternals ''salt'' aliceRegistered ''alice'' longPassword"
proof -
  have registered: "users aliceRegistered ''alice'' \<noteq> None"
    by (simp add: aliceRegistered_def)
  have refused: "hashValue stubExternals ''salt'' longPassword
      = Inl ''password length exceeds 72 bytes''"
    by (simp add: hashValue_def stubExternals_def longPassword_def)
  have worded: "Register_hash_then_create stubExternals ''salt'' aliceRegistered ''alice''
      longPassword
      = (aliceRegistered, Inl (ErrorWhileHashingPass ''password length exceeds 72 bytes''))"
    by (simp add: Register_hash_then_create_def refused)
  have coded: "Register stubExternals ''salt'' aliceRegistered ''alice'' longPassword
      = (aliceRegistered, Inl UserAlreadyRegistered)"
    using registered by (simp add: Register_def)
  from registered refused worded coded show ?thesis by simp
qed

text \<open>
  Claim C5, amended: \<^verbatim>\<open>Register\<close> first checks whether the username is registered and, if
  it is, fails with "user already registered" whatever the hasher would do; otherwise it
  hashes the password, fails with the hashing error if the hasher fails, and else inserts
  the record of the username and the hash and succeeds.
\<close>

theorem Register_check_then_hash:
  "(users u user \<noteq> None \<longrightarrow>
      Register x salt u user pass = (u, Inl UserAlreadyRegistered))
   \<and> (users u user = None \<and> hashValue x salt pass = Inl err \<longrightarrow>
      Register x salt u user pass = (u, Inl (ErrorWhileHashingPass err)))
   \<and> (users u user = None \<and> hashValue x salt pass = Inr hashedPass \<longrightarrow>
      Register x salt u user pass
        = (u\<lparr>users := (users u)(user \<mapsto> \<lparr>Username = user, HashedPassword = hashedPass\<rparr>)\<rparr>,
           Inr ''REGISTER SUCCESSFUL''))"
  by (simp add: Register_def)

theorem Register_check_then_hash_witness:
  "users aliceRegistered ''alice'' \<noteq> None
   \<and> Register stubExternals ''salt'' aliceRegistered ''alice'' longPassword
       = (aliceRegistered, Inl UserAlreadyRegistered)
   \<and> users aliceRegistered ''bob'' = None
   \<and> hashValue stubExternals ''salt'' longPassword = Inl ''password length exceeds 72 bytes''
   \<and> Register stubExternals ''salt'' aliceRegistered ''bob'' longPassword
       = (aliceRegistered, Inl (ErrorWhileHashingPass ''password length exceeds 72 bytes''))
   \<and> hashValue stubExternals ''salt'' ''hunter2'' = Inr ''salt$hunter2''
   \<and> Register stubExternals ''salt'' aliceRegistered ''bob'' ''hunter2''
       = (aliceRegistered\<lparr>users := (users aliceRegistered)
            (''bob'' \<mapsto> \<lparr>Username = ''bob'', HashedPassword = ''salt$hunter2''\<rparr>)\<rparr>,
          Inr ''REGISTER SUCCESSFUL'')"
proof -
  have taken: "users aliceRegistered ''alice'' \<noteq> None"
    by (simp add: aliceRegistered_def)
  have free: "users aliceRegistered ''bob'' = None"
    by (simp add: aliceRegistered_def)
  have refused: "hashValue stubExternals ''salt'' longPassword
      = Inl ''password length exceeds 72 bytes''"
    by (simp add: hashValue_def stubExternals_def longPassword_def)
  have hashed: "hashValue stubExternals ''salt'' ''hunter2'' = Inr ''salt$hunter2''"
    by (simp add: hashValue_def stubExternals_def)
  from taken free refused hashed
    Register_check_then_hash [of aliceRegistered "''alice''" stubExternals "''salt''"
      longPassword]
    Register_check_then_hash [of aliceRegistered "''bob''" stubExternals "''salt''"
      longPassword "''password length exceeds 72 bytes''"]
    Register_check_then_hash [of aliceRegistered "''bob''" stubExternals "''salt''"
      "''hunter2''" _ "''salt$hunter2''"]
  show ?thesis by simp
qed

subsection \<open>Register, Login and the render context\<close>

text \<open>
  Claim C2, as stated: for every username and password, on a fresh service
  \<^verbatim>\<open>Register(username, password)\<close> followed by \<^verbatim>\<open>Login(username, password)\<close> succeeds.
  \<^verbatim>\<open>Register\<close> returns the hasher's failure when the hasher refuses the password, and
  bcrypt refuses one of more than 72 bytes: on a fresh service, \<^verbatim>\<open>Register\<close> of alice with
  a password of 73 bytes fails with the hashing error and stores nothing, and the
  \<^verbatim>\<open>Login\<close> that follows fails with "user not registered" and creates no session.
\<close>

theorem Register_Login_long_password_counterexample:
  "length longPassword = 73
   \<and> GenerateFromPassword stubExternals ''salt'' longPassword DefaultCost
       = Inl ''password length exceeds 72 bytes''
   \<and> Register stubExternals ''salt'' NewUserService ''alice'' longPassword
       = (NewUserService, Inl (ErrorWhileHashingPass ''password length exceeds 72 bytes''))
   \<and> Login stubExternals ''sid-1'' NewUserService ''alice'' longPassword
       = (NewUserService, Inl UserNotRegistered)"
proof -
  have long: "length longPassword = 73"
    by (simp add: longPassword_def)
  have refused: "GenerateFromPassword stubExternals ''salt'' longPassword DefaultCost
      = Inl ''password length exceeds 72 bytes''"
    by (simp add: stubExternals_def long)
  have fresh: "users NewUserService ''alice'' = None"
    by (simp add: NewUserService_def)
  have register: "Register stubExternals ''salt'' NewUserService ''alice'' longPassword
      = (NewUserService, Inl (ErrorWhileHashingPass ''password length exceeds 72 bytes''))"
    using fresh refused by (simp add: Register_def hashValue_def)
  have login: "Login stubExternals ''sid-1'' NewUserService ''alice'' longPassword
      = (NewUserService, Inl UserNotRegistered)"
    using fresh by (simp add: Login_def)
  from long refused register login show ?thesis by simp
qed

text \<open>
  Claim C2, amended: for every username and every password that the hasher accepts, with
  a hash that the comparison accepts for that password, on a fresh service
  \<^verbatim>\<open>Register(username, password)\<close> followed by \<^verbatim>\<open>Login(username, password)\<close> succeeds, and
  \<^verbatim>\<open>SendMainTemplateData\<close> on the returned token gives a context whose \<^verbatim>\<open>User\<close> is that
  username (and whose \<^verbatim>\<open>Session\<close> is the token). The token codec, which this file
  takes as a parameter, is taken to do its part in these calls: it creates a token for
  the session identifier and parses that token back to it, and the token is not blank.
\<close>

theorem Register_Login_render:
  assumes "GenerateFromPassword x salt pass DefaultCost = Inr h"
    and "CompareHashAndPassword x h pass = None"
    and "CreateToken x sessionID = Inr token"
    and "ParseToken x token = Inr sessionID"
    and "TrimSpace token \<noteq> []"
  shows "\<exists>u1 u2 r.
           Register x salt NewUserService user pass = (u1, Inr ''REGISTER SUCCESSFUL'')
         \<and> Login x sessionID u1 user pass = (u2, Inr token)
         \<and> SendMainTemplateData x u2 token = (r, None)
         \<and> User (Variables r) = user \<and> Session (Variables r) = token"
  using assms
  by (simp add: Register_def Login_def SendMainTemplateData_def NewUserService_def
      hashValue_def checkPasswordHash_def zeroTemplateVariables_def)

theorem Register_Login_render_witness:
  "GenerateFromPassword stubExternals ''salt'' ''s3cret'' DefaultCost = Inr ''salt$s3cret''
   \<and> CompareHashAndPassword stubExternals ''salt$s3cret'' ''s3cret'' = None
   \<and> CreateToken stubExternals ''sid-1'' = Inr ''tok:sid-1''
   \<and> ParseToken stubExternals ''tok:sid-1'' = Inr ''sid-1''
   \<and> TrimSpace ''tok:sid-1'' \<noteq> []
   \<and> (\<exists>u1 u2 r.
         Register stubExternals ''salt'' NewUserService ''alice'' ''s3cret''
           = (u1, Inr ''REGISTER SUCCESSFUL'')
       \<and> Login stubExternals ''sid-1'' u1 ''alice'' ''s3cret'' = (u2, Inr ''tok:sid-1'')
       \<and> SendMainTemplateData stubExternals u2 ''tok:sid-1'' = (r, None)
       \<and> User (Variables r) = ''alice'' \<and> Session (Variables r) = ''tok:sid-1'')"
proof -
  have hashed: "GenerateFromPassword stubExternals ''salt'' ''s3cret'' DefaultCost
      = Inr ''salt$s3cret''"
    by (simp add: stubExternals_def)
  have verified: "CompareHashAndPassword stubExternals ''salt$s3cret'' ''s3cret'' = None"
    by (simp add: stubExternals_def)
  have encoded: "CreateToken stubExternals ''sid-1'' = Inr ''tok:sid-1''"
    by (simp add: stubExternals_def)
  have decoded: "ParseToken stubExternals ''tok:sid-1'' = Inr ''sid-1''"
    by (simp add: stubExternals_def)
  have nonblank: "TrimSpace ''tok:sid-1'' \<noteq> []" by code_simp
  from Register_Login_render [OF hashed verified encoded decoded nonblank, of "''alice''"]
    hashed verified encoded decoded nonblank
  show ?thesis by blast
qed

subsection \<open>SendMainTemplateData\<close>

text \<open>
  Claim C3: in every state of the service, \<^verbatim>\<open>SendMainTemplateData\<close> on an empty or
  white-space-only token (one that \<^verbatim>\<open>strings.TrimSpace\<close> makes empty) returns a nil error
  and the anonymous context: the main template's name and all variables, among them
  \<^verbatim>\<open>Session\<close>, \<^verbatim>\<open>User\<close> and \<^verbatim>\<open>ErrorMessage\<close>, at their zero values.
\<close>

theorem SendMainTemplateData_blank:
  "TrimSpace token = [] \<Longrightarrow>
   SendMainTemplateData x u token =
     (\<lparr>Metadata = \<lparr>Name = ''main.gohtml''\<rparr>,
       Variables = \<lparr>VName = [], LoginMessage = [], ErrorMessage = None,
                    Session = [], User = []\<rparr>\<rparr>, None)"
  by (simp add: SendMainTemplateData_def MainTemplate_def zeroTemplateVariables_def)

theorem SendMainTemplateData_blank_witness:
  "TrimSpace [CHR 0x20, CHR 0x09, CHR 0xC2, CHR 0xA0] = []
   \<and> SendMainTemplateData stubExternals aliceLoggedIn [CHR 0x20, CHR 0x09, CHR 0xC2, CHR 0xA0] =
     (\<lparr>Metadata = \<lparr>Name = ''main.gohtml''\<rparr>,
       Variables = \<lparr>VName = [], LoginMessage = [], ErrorMessage = None,
                    Session = [], User = []\<rparr>\<rparr>, None)"
proof -
  have blank: "TrimSpace [CHR 0x20, CHR 0x09, CHR 0xC2, CHR 0xA0] = []" by code_simp
  from blank SendMainTemplateData_blank [OF blank] show ?thesis by simp
qed

text \<open>
  Claim C8: for a token that is not blank, if \<^verbatim>\<open>ParseToken\<close> fails or the parsed session
  is not in the sessions map, \<^verbatim>\<open>SendMainTemplateData\<close> returns the same anonymous context
  (the main template's name, zero variables) together with a non-nil error.
\<close>

theorem SendMainTemplateData_failure:
  assumes "TrimSpace token \<noteq> []"
    and "ParseToken x token = Inl err
         \<or> (ParseToken x token = Inr sessionID \<and> sessions u sessionID = None)"
  shows "fst (SendMainTemplateData x u token) =
           \<lparr>Metadata = \<lparr>Name = ''main.gohtml''\<rparr>,
            Variables = \<lparr>VName = [], LoginMessage = [], ErrorMessage = None,
                         Session = [], User = []\<rparr>\<rparr>
       \<and> snd (SendMainTemplateData x u token) \<noteq> None"
  using assms
  by (auto simp: SendMainTemplateData_def MainTemplate_def zeroTemplateVariables_def)

theorem SendMainTemplateData_failure_witness:
  "TrimSpace ''garbage'' \<noteq> []
   \<and> ParseToken stubExternals ''garbage'' = Inl ''invalid token''
   \<and> SendMainTemplateData stubExternals aliceLoggedIn ''garbage'' =
       (\<lparr>Metadata = \<lparr>Name = ''main.gohtml''\<rparr>,
         Variables = \<lparr>VName = [], LoginMessage = [], ErrorMessage = None,
                      Session = [], User = []\<rparr>\<rparr>,
        Some (ErrorWhileParsingToken ''invalid token''))
   \<and> TrimSpace ''tok:sid-9'' \<noteq> []
   \<and> ParseToken stubExternals ''tok:sid-9'' = Inr ''sid-9''
   \<and> sessions aliceLoggedIn ''sid-9'' = None
   \<and> SendMainTemplateData stubExternals aliceLoggedIn ''tok:sid-9'' =
       (\<lparr>Metadata = \<lparr>Name = ''main.gohtml''\<rparr>,
         Variables = \<lparr>VName = [], LoginMessage = [], ErrorMessage = None,
                      Session = [], User = []\<rparr>\<rparr>,
        Some SessionNotRegistered)"
proof -
  have nb1: "TrimSpace ''garbage'' \<noteq> []" by code_simp
  have bad: "ParseToken stubExternals ''garbage'' = Inl ''invalid token''"
    by (simp add: stubExternals_def)
  have nb2: "TrimSpace ''tok:sid-9'' \<noteq> []" by code_simp
  have good: "ParseToken stubExternals ''tok:sid-9'' = Inr ''sid-9''"
    by (simp add: stubExternals_def)
  have absent: "sessions aliceLoggedIn ''sid-9'' = None"
    by (simp add: aliceLoggedIn_def)
  have e1: "snd (SendMainTemplateData stubExternals aliceLoggedIn ''garbage'')
      = Some (ErrorWhileParsingToken ''invalid token'')"
    using nb1 bad by (simp add: SendMainTemplateData_def)
  have e2: "snd (SendMainTemplateData stubExternals aliceLoggedIn ''tok:sid-9'')
      = Some SessionNotRegistered"
    using nb2 good absent by (simp add: SendMainTemplateData_def)
  from SendMainTemplateData_failure [OF nb1 disjI1, OF bad, of aliceLoggedIn]
    SendMainTemplateData_failure [OF nb2 disjI2, OF conjI, OF good absent]
    nb1 bad nb2 good absent e1 e2
  show ?thesis by (simp add: prod_eq_iff)
qed

text \<open>
  Claim C10: on every path of \<^verbatim>\<open>SendMainTemplateData\<close> (blank token, parse failure,
  unknown session, success) the \<^verbatim>\<open>Metadata.Name\<close> of the returned value is
  \<^verbatim>\<open>main.gohtml\<close>.
\<close>

theorem SendMainTemplateData_name:
  "Name (Metadata (fst (SendMainTemplateData x u token))) = ''main.gohtml''"
  by (simp add: SendMainTemplateData_def MainTemplate_def split: sum.split option.split)

subsection \<open>Logout\<close>



subsection \<open>User records\<close>

lemma perform_users:
  "users u name = Some f \<Longrightarrow> users (perform x u c) name = Some f"
  by (cases c)
    (auto simp: Register_def Login_def Logout_def Let_def split: option.splits sum.splits)

lemma foldl_perform_users:
  "users u name = Some f \<Longrightarrow> users (foldl (perform x) u cs) name = Some f"
  by (induction cs arbitrary: u) (simp_all add: perform_users)

lemma perform_users_created:
  assumes "users (perform x u c) name \<noteq> users u name"
  shows "users u name = None \<and> (\<exists>salt pass h. c = CallRegister salt name pass
           \<and> hashValue x salt pass = Inr h
           \<and> users (perform x u c) name = Some \<lparr>Username = name, HashedPassword = h\<rparr>)"
  using assms
  by (cases c)
    (auto simp: Register_def Login_def Logout_def Let_def
      split: option.splits sum.splits if_splits)

text \<open>
  Claim C9: a user record that is in the users map stays there, with the same username
  and hashed password, through every sequence of \<^verbatim>\<open>Register\<close>, \<^verbatim>\<open>Login\<close>, \<^verbatim>\<open>Logout\<close>,
  \<^verbatim>\<open>SendMainTemplateData\<close> and \<^verbatim>\<open>HealthCheck\<close> calls; and a call that changes the entry
  of a name is a \<^verbatim>\<open>Register\<close> of that name, which was absent, and stores the name with
  the hash of the password.
\<close>

theorem users_created_by_Register_only:
  "(users u name = Some f \<longrightarrow> users (foldl (perform x) u cs) name = Some f)
   \<and> (users (perform x u c) name \<noteq> users u name \<longrightarrow>
        users u name = None
        \<and> (\<exists>salt pass h. c = CallRegister salt name pass
              \<and> hashValue x salt pass = Inr h
              \<and> users (perform x u c) name = Some \<lparr>Username = name, HashedPassword = h\<rparr>))"
  using foldl_perform_users perform_users_created by blast

theorem users_created_by_Register_only_witness:
  "users aliceRegistered ''alice'' = Some \<lparr>Username = ''alice'', HashedPassword = ''salt$s3cret''\<rparr>
   \<and> users (foldl (perform stubExternals) aliceRegistered
        [CallRegister ''pepper'' ''alice'' ''other'', CallLogin ''sid-1'' ''alice'' ''s3cret'',
         CallSendMainTemplateData ''tok:sid-1'', CallHealthCheck, CallLogout ''tok:sid-1'',
         CallRegister ''salt'' ''bob'' ''hunter2'']) ''alice''
       = Some \<lparr>Username = ''alice'', HashedPassword = ''salt$s3cret''\<rparr>
   \<and> users (perform stubExternals aliceRegistered (CallRegister ''salt'' ''bob'' ''hunter2''))
        ''bob'' \<noteq> users aliceRegistered ''bob''
   \<and> users aliceRegistered ''bob'' = None
   \<and> users (perform stubExternals aliceRegistered (CallRegister ''salt'' ''bob'' ''hunter2''))
        ''bob'' = Some \<lparr>Username = ''bob'', HashedPassword = ''salt$hunter2''\<rparr>"
proof -
  have stored: "users aliceRegistered ''alice''
      = Some \<lparr>Username = ''alice'', HashedPassword = ''salt$s3cret''\<rparr>"
    by (simp add: aliceRegistered_def)
  have free: "users aliceRegistered ''bob'' = None"
    by (simp add: aliceRegistered_def)
  have created: "users (perform stubExternals aliceRegistered
      (CallRegister ''salt'' ''bob'' ''hunter2'')) ''bob''
      = Some \<lparr>Username = ''bob'', HashedPassword = ''salt$hunter2''\<rparr>"
    by (simp add: Register_def hashValue_def stubExternals_def aliceRegistered_def)
  from created free have changed: "users (perform stubExternals aliceRegistered
      (CallRegister ''salt'' ''bob'' ''hunter2'')) ''bob'' \<noteq> users aliceRegistered ''bob''"
    by simp
  from users_created_by_Register_only [of aliceRegistered "''alice''"
      "\<lparr>Username = ''alice'', HashedPassword = ''salt$s3cret''\<rparr>" stubExternals
      "[CallRegister ''pepper'' ''alice'' ''other'', CallLogin ''sid-1'' ''alice'' ''s3cret'',
        CallSendMainTemplateData ''tok:sid-1'', CallHealthCheck, CallLogout ''tok:sid-1'',
        CallRegister ''salt'' ''bob'' ''hunter2'']"]
    users_created_by_Register_only [of aliceRegistered "''bob''" _ stubExternals _
      "CallRegister ''salt'' ''bob'' ''hunter2''"]
    stored free created changed
  show ?thesis by simp
qed

end
